theory Spec2Isabelle
  imports Main
begin

section \<open>Go run-time types and dynamic values\<close>

text \<open>
  The mediator routes on \<^verbatim>\<open>reflect.Type\<close> values and converts between \<^verbatim>\<open>any\<close> and
  the type parameters of its generic functions by type assertions. The fragment of Go's
  run-time type system these operations need is modelled here, after the Go language
  specification (type identity, assignability, type assertions) and package
  \<^verbatim>\<open>reflect\<close> (\<^verbatim>\<open>TypeOf\<close>, \<^verbatim>\<open>Name\<close>, \<^verbatim>\<open>AssignableTo\<close>).

  A type descriptor carries the name of a defined (or predeclared) type, empty for a type
  literal such as \<^verbatim>\<open>[]int\<close>; its underlying type, either an interface with its method
  names or some other type literal, given by its canonical text; and the methods declared
  on it. Two descriptors denote identical types exactly when they are equal. Channel
  types, whose assignability also depends on direction, are outside the fragment. A
  method stands for its name and signature together, and package paths are not
  represented: distinct defined types are taken to differ in name, underlying type or
  methods.
\<close>

datatype utype = Interface "string list" | Literal string

datatype gotype = GoType (Name: string) (underlying: utype) (declared: "string list")

fun is_interface :: "gotype \<Rightarrow> bool" where
  "is_interface (GoType n (Interface ms) d) = True"
| "is_interface (GoType n (Literal l) d) = False"

fun methods :: "gotype \<Rightarrow> string list" where
  "methods (GoType n (Interface ms) d) = ms"
| "methods (GoType n (Literal l) d) = d"

text \<open>
  \<^verbatim>\<open>reflect\<close>'s \<^verbatim>\<open>implements(T, V)\<close>: \<open>T\<close> must be an interface type, and every method
  of \<open>T\<close> must be in the method set of \<open>V\<close>.
\<close>

fun implements :: "gotype \<Rightarrow> gotype \<Rightarrow> bool" where
  "implements (GoType n (Interface ms) d) V = (set ms \<subseteq> set (methods V))"
| "implements (GoType n (Literal l) d) V = False"

text \<open>
  \<^verbatim>\<open>reflect\<close>'s \<^verbatim>\<open>haveIdenticalUnderlyingType\<close>, for two types of the same kind: two
  interface types only when both are empty (otherwise a run-time conversion is needed,
  which \<open>implements\<close> covers), two other types when their underlying literals agree.
\<close>

fun haveIdenticalUnderlyingType :: "utype \<Rightarrow> utype \<Rightarrow> bool" where
  "haveIdenticalUnderlyingType (Interface ms) (Interface ns) = (ms = [] \<and> ns = [])"
| "haveIdenticalUnderlyingType (Literal a) (Literal b) = (a = b)"
| "haveIdenticalUnderlyingType (Interface ms) (Literal b) = False"
| "haveIdenticalUnderlyingType (Literal a) (Interface ns) = False"

text \<open>
  \<^verbatim>\<open>reflect\<close>'s \<^verbatim>\<open>directlyAssignable(T, V)\<close>: identical types, or at least one of the two
  is not a named type and their underlying types are identical.
\<close>

definition directlyAssignable :: "gotype \<Rightarrow> gotype \<Rightarrow> bool" where
  "directlyAssignable T V =
     (if T = V then True
      else if Name T \<noteq> [] \<and> Name V \<noteq> [] then False
      else haveIdenticalUnderlyingType (underlying T) (underlying V))"

text \<open>\<^verbatim>\<open>t.AssignableTo(u)\<close>: a value of type \<open>t\<close> may be assigned to a variable of type \<open>u\<close>.\<close>

definition AssignableTo :: "gotype \<Rightarrow> gotype \<Rightarrow> bool" where
  "AssignableTo t u = (directlyAssignable u t \<or> implements u t)"

text \<open>
  A value of type \<^verbatim>\<open>any\<close> is the nil interface or a dynamic (never an interface) type with
  its data. The data is abstracted to a string; the empty string stands for the zero
  value of the type.
\<close>

datatype val = Nil | Val gotype string

text \<open>\<^verbatim>\<open>reflect.TypeOf(x)\<close>: the dynamic type of \<open>x\<close>, the nil \<^verbatim>\<open>reflect.Type\<close> for nil.\<close>

fun reflect_TypeOf :: "val \<Rightarrow> gotype option" where
  "reflect_TypeOf Nil = None"
| "reflect_TypeOf (Val D x) = Some D"

text \<open>
  The type assertion \<^verbatim>\<open>x.(T)\<close> holds when \<open>x\<close> is not nil and its dynamic type is
  identical to \<open>T\<close> (for a non-interface \<open>T\<close>) or implements \<open>T\<close> (for an interface
  \<open>T\<close>); the single-value form used throughout the source panics otherwise.
\<close>

fun type_assert :: "val \<Rightarrow> gotype \<Rightarrow> bool" where
  "type_assert Nil T = False"
| "type_assert (Val D x) T = (if is_interface T then implements T D else D = T)"

text \<open>
  A value of static type \<open>T\<close> seen as \<^verbatim>\<open>any\<close>: of dynamic type \<open>T\<close> for a non-interface
  \<open>T\<close>; nil or of a dynamic type implementing \<open>T\<close> for an interface \<open>T\<close>. Go's type checker
  guarantees this of every argument and result declared with type \<open>T\<close>.
\<close>

fun has_static_type :: "gotype \<Rightarrow> val \<Rightarrow> bool" where
  "has_static_type T Nil = is_interface T"
| "has_static_type T (Val D x) = (if is_interface T then implements T D else D = T)"

section \<open>Package internal\<close>

text \<open>
  \<^verbatim>\<open>internal.TypeOf[T]()\<close> is \<^verbatim>\<open>reflect.TypeOf((*T)(nil)).Elem()\<close>: the descriptor of the
  type argument itself, also for an interface type, and never nil. Type arguments are
  explicit descriptors in this development.
\<close>

definition TypeOf :: "gotype \<Rightarrow> gotype" where
  "TypeOf T = T"

text \<open>
  \<^verbatim>\<open>internal.Zero[T]()\<close>, as it is stored into a variable of type \<^verbatim>\<open>any\<close>: the zero
  value of an interface type is the nil interface.
\<close>

definition Zero :: "gotype \<Rightarrow> val" where
  "Zero T = (if is_interface T then Nil else Val T [])"

section \<open>The mediator\<close>

text \<open>
  Handlers, behaviours and listeners are caller-supplied functions with side effects.
  They act on an explicit world state \<open>'s\<close> and either return or panic. The context
  argument is only threaded through and handed to the logger, whose diagnostics are
  not part of the model.
\<close>

datatype error = Errorf string | AppError string

datatype 'a outcome = Panic | Ret 'a

type_synonym ('s, 'a) comp = "'s \<Rightarrow> 'a outcome \<times> 's"

type_synonym 's Next = "('s, val \<times> error option) comp"

record 's eventHandlerInfo =
  eventType :: gotype
  eventHandlerFunc :: "val \<Rightarrow> ('s, error option) comp"

record 's behaviourInfo =
  b_requestType :: gotype
  behaviourFunc :: "val \<Rightarrow> 's Next \<Rightarrow> 's Next"

record 's handlerInfo =
  requestType :: gotype
  responseType :: gotype
  handlerFunc :: "val \<Rightarrow> 's Next"

text \<open>
  The registries are written by the \<open>Register\<close> functions only, whose keys come from
  \<open>TypeOf\<close>; a nil \<^verbatim>\<open>reflect.Type\<close> is never a key, so the maps are keyed by descriptors.
\<close>

record 's mediator =
  handlers :: "gotype \<rightharpoonup> 's handlerInfo"
  behaviours :: "'s behaviourInfo list"
  eventHandlers :: "gotype \<rightharpoonup> 's eventHandlerInfo list"

definition NewMediator :: "'s mediator" where
  "NewMediator = \<lparr>handlers = Map.empty, behaviours = [], eventHandlers = Map.empty\<rparr>"

definition RegisterEventHandler ::
  "gotype \<Rightarrow> 's mediator \<Rightarrow> (val \<Rightarrow> ('s, error option) comp) \<Rightarrow> 's mediator" where
  "RegisterEventHandler TEvent m eventHandler =
     (let eventType = TypeOf TEvent;
          eventHandlers0 = (case eventHandlers m eventType of None \<Rightarrow> [] | Some hs \<Rightarrow> hs);
          eventHandlers1 = eventHandlers0 @
            [\<lparr>eventType = eventType,
              eventHandlerFunc = (\<lambda>evt s.
                if type_assert evt TEvent then eventHandler evt s else (Panic, s))\<rparr>]
      in m\<lparr>eventHandlers := (eventHandlers m)(eventType \<mapsto> eventHandlers1)\<rparr>)"

definition RegisterBehaviour ::
  "gotype \<Rightarrow> 's mediator \<Rightarrow> (val \<Rightarrow> 's Next \<Rightarrow> 's Next) \<Rightarrow> 's mediator" where
  "RegisterBehaviour TRequest m behaviour =
     (let requestType = TypeOf TRequest
      in m\<lparr>behaviours := behaviours m @
            [\<lparr>b_requestType = requestType,
              behaviourFunc = (\<lambda>request next s.
                if type_assert request TRequest then behaviour request next s
                else (Panic, s))\<rparr>]\<rparr>)"

definition RegisterHandler ::
  "gotype \<Rightarrow> gotype \<Rightarrow> 's mediator \<Rightarrow> (val \<Rightarrow> 's Next) \<Rightarrow> 's mediator" where
  "RegisterHandler TRequest TResponse m handler =
     m\<lparr>handlers := (handlers m)(TypeOf TRequest \<mapsto>
        \<lparr>requestType = TypeOf TRequest,
         responseType = TypeOf TResponse,
         handlerFunc = (\<lambda>request s.
           if type_assert request TRequest then handler request s else (Panic, s))\<rparr>)\<rparr>"

text \<open>The loop of \<^verbatim>\<open>mediator.SendEvent\<close> over the listeners of the event type.\<close>

fun SendEvent_loop :: "'s eventHandlerInfo list \<Rightarrow> val \<Rightarrow> ('s, error option) comp" where
  "SendEvent_loop [] evt s = (Ret None, s)"
| "SendEvent_loop (eventHandler # rest) evt s =
     (case eventHandlerFunc eventHandler evt s of
        (Panic, s') \<Rightarrow> (Panic, s')
      | (Ret (Some err), s') \<Rightarrow> (Ret (Some err), s')
      | (Ret None, s') \<Rightarrow> SendEvent_loop rest evt s')"

text \<open>
  \<^verbatim>\<open>mediator.SendEvent\<close>. The event type is a \<^verbatim>\<open>reflect.Type\<close> and may be nil, under
  which nothing is registered.
\<close>

definition mediator_SendEvent ::
  "'s mediator \<Rightarrow> val \<Rightarrow> gotype option \<Rightarrow> ('s, error option) comp" where
  "mediator_SendEvent m evt etype s =
     (case (case etype of None \<Rightarrow> None | Some t \<Rightarrow> eventHandlers m t) of
        None \<Rightarrow> (Ret None, s)
      | Some hs \<Rightarrow> SendEvent_loop hs evt s)"

text \<open>The generic \<^verbatim>\<open>SendEvent[TEvent]\<close>; \<open>evt\<close> is the event converted to \<^verbatim>\<open>any\<close>.\<close>

definition SendEvent :: "gotype \<Rightarrow> 's mediator \<Rightarrow> val \<Rightarrow> ('s, error option) comp" where
  "SendEvent TEvent m evt s = mediator_SendEvent m evt (Some (TypeOf TEvent)) s"

text \<open>The loop of \<^verbatim>\<open>getBehaviours\<close>, appending each matching behaviour to the result.\<close>

fun getBehaviours_loop ::
  "gotype \<Rightarrow> 's behaviourInfo list \<Rightarrow> 's behaviourInfo list \<Rightarrow> 's behaviourInfo list" where
  "getBehaviours_loop rt [] result = result"
| "getBehaviours_loop rt (behaviour # rest) result =
     getBehaviours_loop rt rest
       (if AssignableTo rt (b_requestType behaviour) then result @ [behaviour] else result)"

definition getBehaviours :: "'s mediator \<Rightarrow> gotype \<Rightarrow> 's behaviourInfo list" where
  "getBehaviours m rt = getBehaviours_loop rt (behaviours m) []"

text \<open>
  The loop of \<^verbatim>\<open>mediator.Send\<close> that wraps the current step into each behaviour, with
  the index running from the last behaviour down to the first. The second argument is
  the number of behaviours still to wrap, one more than the source's index \<open>i\<close>.
\<close>

fun Send_loop :: "'s behaviourInfo list \<Rightarrow> nat \<Rightarrow> val \<Rightarrow> 's Next \<Rightarrow> 's Next" where
  "Send_loop bs 0 request step = step"
| "Send_loop bs (Suc i) request step =
     Send_loop bs i request (behaviourFunc (bs ! i) request step)"

text \<open>
  \<^verbatim>\<open>mediator.Send\<close>. Both types are \<^verbatim>\<open>reflect.Type\<close> values and may be nil; taking the
  name of a nil type for an error message panics.
\<close>

definition mediator_Send ::
  "'s mediator \<Rightarrow> val \<Rightarrow> gotype option \<Rightarrow> gotype option \<Rightarrow> 's Next" where
  "mediator_Send m request rtype rsptype s =
     (case (case rtype of None \<Rightarrow> None | Some rt \<Rightarrow> handlers m rt) of
        None \<Rightarrow>
          (case rtype of
             None \<Rightarrow> (Panic, s)
           | Some rt \<Rightarrow>
               (Ret (Nil, Some (Errorf
                  (''no handler registered for request type '' @ Name rt))), s))
      | Some info \<Rightarrow>
          if Some (responseType info) \<noteq> rsptype then
            (case (rsptype, rtype) of
               (Some rsp, Some rt) \<Rightarrow>
                 (Ret (Nil, Some (Errorf
                    (''wrong response type '' @ Name rsp @ '' was used for request '' @
                     Name rt @ '', expected response type '' @
                     Name (responseType info)))), s)
             | _ \<Rightarrow> (Panic, s))
          else
            (case rtype of
               None \<Rightarrow> (Panic, s)
             | Some rt \<Rightarrow>
                 (let step0 = handlerFunc info request;
                      bs = getBehaviours m rt;
                      step = Send_loop bs (length bs) request step0
                  in case step s of
                       (Panic, s') \<Rightarrow> (Panic, s')
                     | (Ret (response, err), s') \<Rightarrow>
                         if err \<noteq> None then (Ret (Nil, err), s')
                         else (Ret (response, err), s'))))"

text \<open>
  The generic \<^verbatim>\<open>Send[TResponse]\<close>: the request type is the dynamic type of the request,
  a nil response is replaced by the zero value, and the result is asserted to be a
  \<open>TResponse\<close>.
\<close>

definition Send :: "gotype \<Rightarrow> 's mediator \<Rightarrow> val \<Rightarrow> 's Next" where
  "Send TResponse m request s =
     (let rtype = reflect_TypeOf request
      in case mediator_Send m request rtype (Some (TypeOf TResponse)) s of
           (Panic, s') \<Rightarrow> (Panic, s')
         | (Ret (response, err), s') \<Rightarrow>
             (let response' = (if response = Nil then Zero TResponse else response)
              in if type_assert response' TResponse then (Ret (response', err), s')
                 else (Panic, s')))"

section \<open>Notions used to state the properties\<close>

text \<open>
  The pipeline as the specification describes it: the first behaviour runs with the rest
  of the pipeline as its \<open>next\<close>, and the \<open>next\<close> of the last behaviour is the handler.
\<close>

fun chain :: "'s behaviourInfo list \<Rightarrow> val \<Rightarrow> 's Next \<Rightarrow> 's Next" where
  "chain [] request h = h"
| "chain (b # bs) request h = behaviourFunc b request (chain bs request h)"

text \<open>
  What \<^verbatim>\<open>mediator.Send\<close> does with the result of the composed pipeline: a panic
  propagates, and a response that comes with an error is replaced by nil.
\<close>

fun finish :: "(val \<times> error option) outcome \<times> 's \<Rightarrow> (val \<times> error option) outcome \<times> 's" where
  "finish (Panic, s) = (Panic, s)"
| "finish (Ret (response, None), s) = (Ret (response, None), s)"
| "finish (Ret (response, Some err), s) = (Ret (Nil, Some err), s)"

text \<open>
  Fan-out, as the specification describes it. \<open>all_nil hs evt s\<close>: invoked one after the
  other in list order from state \<open>s\<close>, every listener of \<open>hs\<close> returns a nil error.
  \<open>listeners_state hs evt s\<close>: the state those invocations leave.
\<close>

fun all_nil :: "'s eventHandlerInfo list \<Rightarrow> val \<Rightarrow> 's \<Rightarrow> bool" where
  "all_nil [] evt s = True"
| "all_nil (h # hs) evt s =
     (fst (eventHandlerFunc h evt s) = Ret None \<and> all_nil hs evt (snd (eventHandlerFunc h evt s)))"

fun listeners_state :: "'s eventHandlerInfo list \<Rightarrow> val \<Rightarrow> 's \<Rightarrow> 's" where
  "listeners_state [] evt s = s"
| "listeners_state (h # hs) evt s = listeners_state hs evt (snd (eventHandlerFunc h evt s))"

text \<open>The entry that \<open>RegisterBehaviour\<close> appends for a behaviour of request type \<open>T\<close>.\<close>

definition behaviourEntry :: "gotype \<Rightarrow> (val \<Rightarrow> 's Next \<Rightarrow> 's Next) \<Rightarrow> 's behaviourInfo" where
  "behaviourEntry T behaviour =
     \<lparr>b_requestType = T,
      behaviourFunc = (\<lambda>request next s.
        if type_assert request T then behaviour request next s else (Panic, s))\<rparr>"

text \<open>
  A behaviour with logic before and after its call of \<open>next\<close>: it runs \<open>pre\<close>, calls
  \<open>next\<close> once, and when that returns runs \<open>post\<close> and hands the result on.
\<close>

definition around ::
  "(val \<Rightarrow> 's \<Rightarrow> 's) \<Rightarrow> (val \<Rightarrow> 's \<Rightarrow> 's) \<Rightarrow> val \<Rightarrow> 's Next \<Rightarrow> 's Next" where
  "around pre post request next s =
     (case next (pre request s) of
        (Panic, s') \<Rightarrow> (Panic, s')
      | (Ret r, s') \<Rightarrow> (Ret r, post request s'))"

text \<open>
  For behaviours given by their \<open>pre\<close> and \<open>post\<close> logic, in registration order:
  \<open>pre_logic\<close> runs the logic before \<open>next\<close> of the first, then of the second, and so on;
  \<open>post_logic\<close> runs the logic after \<open>next\<close> of the last first and of the first last.
\<close>

fun pre_logic :: "((val \<Rightarrow> 's \<Rightarrow> 's) \<times> (val \<Rightarrow> 's \<Rightarrow> 's)) list \<Rightarrow> val \<Rightarrow> 's \<Rightarrow> 's" where
  "pre_logic [] request s = s"
| "pre_logic ((pre, post) # rest) request s = pre_logic rest request (pre request s)"

fun post_logic :: "((val \<Rightarrow> 's \<Rightarrow> 's) \<times> (val \<Rightarrow> 's \<Rightarrow> 's)) list \<Rightarrow> val \<Rightarrow> 's \<Rightarrow> 's" where
  "post_logic [] request s = s"
| "post_logic ((pre, post) # rest) request s = post request (post_logic rest request s)"

text \<open>Registering such behaviours for the request type \<open>T\<close>, one after the other.\<close>

fun RegisterBehaviours ::
  "gotype \<Rightarrow> 's mediator \<Rightarrow> ((val \<Rightarrow> 's \<Rightarrow> 's) \<times> (val \<Rightarrow> 's \<Rightarrow> 's)) list \<Rightarrow> 's mediator" where
  "RegisterBehaviours T m [] = m"
| "RegisterBehaviours T m ((pre, post) # rest) =
     RegisterBehaviours T (RegisterBehaviour T m (around pre post)) rest"

section \<open>Example types and functions\<close>

text \<open>The world state of the examples is a trace: the list of the stages that ran.\<close>

definition string_t :: gotype where
  "string_t = GoType ''string'' (Literal ''string'') []"

definition int_t :: gotype where
  "int_t = GoType ''int'' (Literal ''int'') []"

definition handler_foo :: "val \<Rightarrow> string list Next" where
  "handler_foo request s = (Ret (Val string_t ''foo'', None), s @ [''H''])"

definition handler_bar :: "val \<Rightarrow> string list Next" where
  "handler_bar request s = (Ret (Val string_t ''bar'', None), s @ [''H2''])"

definition listener_ok :: "string \<Rightarrow> val \<Rightarrow> (string list, error option) comp" where
  "listener_ok label evt s = (Ret None, s @ [label])"

definition listener_failing :: "string \<Rightarrow> val \<Rightarrow> (string list, error option) comp" where
  "listener_failing label evt s = (Ret (Some (AppError label)), s @ [label])"

definition three_listeners :: "string list mediator" where
  "three_listeners =
     RegisterEventHandler string_t
       (RegisterEventHandler string_t
          (RegisterEventHandler string_t NewMediator (listener_ok ''L1''))
          (listener_failing ''L2''))
       (listener_ok ''L3'')"

definition log_stage :: "string \<Rightarrow> val \<Rightarrow> string list \<Rightarrow> string list" where
  "log_stage label request s = s @ [label]"

definition two_behaviours :: "string list mediator" where
  "two_behaviours =
     RegisterBehaviours string_t (RegisterHandler string_t string_t NewMediator handler_foo)
       [(log_stage ''B1 pre'', log_stage ''B1 post''),
        (log_stage ''B2 pre'', log_stage ''B2 post'')]"

text \<open>A handler that returns a response together with an error.\<close>

definition handler_partial :: "val \<Rightarrow> string list Next" where
  "handler_partial request s =
     (Ret (Val string_t ''partial'', Some (AppError ''boom'')), s @ [''H''])"

definition partial_mediator :: "string list mediator" where
  "partial_mediator = RegisterHandler string_t string_t NewMediator handler_partial"

text \<open>Behaviours that return without calling \<open>next\<close>, and one that only calls it.\<close>

definition behaviour_reject :: "val \<Rightarrow> string list Next \<Rightarrow> string list Next" where
  "behaviour_reject request next s =
     (Ret (Val string_t ''partial'', Some (AppError ''denied'')), s @ [''SC''])"

definition behaviour_cached :: "val \<Rightarrow> string list Next \<Rightarrow> string list Next" where
  "behaviour_cached request next s = (Ret (Val string_t ''cached'', None), s @ [''SC''])"

definition behaviour_pass :: "val \<Rightarrow> string list Next \<Rightarrow> string list Next" where
  "behaviour_pass request next s = next (s @ [''B''])"





text \<open>
  The empty interface \<^verbatim>\<open>any\<close>, the interface \<^verbatim>\<open>error\<close>, the slice type \<^verbatim>\<open>[]int\<close> and
  a defined type \<^verbatim>\<open>type IDs []int\<close>.
\<close>

definition any_t :: gotype where
  "any_t = GoType [] (Interface []) []"

definition error_t :: gotype where
  "error_t = GoType ''error'' (Interface [''Error'']) []"

definition slice_t :: gotype where
  "slice_t = GoType [] (Literal ''[]int'') []"

definition ids_t :: gotype where
  "ids_t = GoType ''IDs'' (Literal ''[]int'') []"

text \<open>A handler with response type \<^verbatim>\<open>any\<close> that fails.\<close>

definition handler_failing :: "val \<Rightarrow> string list Next" where
  "handler_failing request s = (Ret (Nil, Some (AppError ''boom'')), s @ [''H''])"

definition any_mediator :: "string list mediator" where
  "any_mediator = RegisterHandler string_t any_t NewMediator handler_failing"

text \<open>A handler for \<^verbatim>\<open>[]int\<close> requests with a behaviour registered for \<^verbatim>\<open>IDs\<close>.\<close>

definition ids_mediator :: "string list mediator" where
  "ids_mediator =
     RegisterBehaviour ids_t (RegisterHandler slice_t string_t NewMediator handler_foo)
       behaviour_pass"

text \<open>A listener for events of the interface type \<^verbatim>\<open>error\<close>.\<close>

definition error_mediator :: "string list mediator" where
  "error_mediator = RegisterEventHandler error_t NewMediator (listener_ok ''L1'')"

text \<open>Behaviours registered for \<^verbatim>\<open>any\<close>, for \<^verbatim>\<open>int\<close> and for \<^verbatim>\<open>string\<close>, in that order.\<close>

definition mixed_mediator :: "string list mediator" where
  "mixed_mediator =
     RegisterBehaviour string_t
       (RegisterBehaviour int_t (RegisterBehaviour any_t NewMediator behaviour_pass)
          behaviour_cached)
       behaviour_reject"

section \<open>Matching behaviours\<close>

lemma getBehaviours_loop_filter:
  "getBehaviours_loop rt bs acc = acc @ filter (\<lambda>b. AssignableTo rt (b_requestType b)) bs"
  by (induction bs arbitrary: acc) simp_all

text \<open>
  C9: the behaviours used to compose the pipeline for a request type are exactly the
  registered behaviours whose applies-to type the request type is assignable to, in
  their registration order: the sequence is the registered sequence filtered by
  assignability.
\<close>

theorem getBehaviours_matching:
  "getBehaviours m rt = filter (\<lambda>b. AssignableTo rt (b_requestType b)) (behaviours m)"
  by (simp add: getBehaviours_def getBehaviours_loop_filter)

section \<open>The composed pipeline\<close>

lemma Send_loop_take:
  "n \<le> length bs \<Longrightarrow> Send_loop bs n request step = chain (take n bs) request step"
proof (induction n arbitrary: step)
  case 0
  show ?case by simp
next
  case (Suc n)
  then have "n < length bs" by simp
  then have split: "take (Suc n) bs = take n bs @ [bs ! n]"
    by (simp add: take_Suc_conv_app_nth)
  have app: "chain (xs @ [b]) request k = chain xs request (behaviourFunc b request k)"
    for xs b and k :: "'a Next"
    by (induction xs) simp_all
  from Suc show ?case by (simp add: split app)
qed

lemma Send_loop_chain: "Send_loop bs (length bs) request step = chain bs request step"
  using Send_loop_take [of "length bs" bs request step] by simp

lemma mediator_Send_found:
  assumes "handlers m rt = Some info" and "responseType info = rsp"
  shows "mediator_Send m request (Some rt) (Some rsp) s =
           finish (chain (getBehaviours m rt) request (handlerFunc info request) s)"
proof -
  obtain r s' where run: "chain (getBehaviours m rt) request (handlerFunc info request) s = (r, s')"
    by (cases "chain (getBehaviours m rt) request (handlerFunc info request) s")
  show ?thesis
  proof (cases r)
    case Panic
    with assms run show ?thesis by (simp add: mediator_Send_def Send_loop_chain)
  next
    case (Ret p)
    obtain response err where p: "p = (response, err)" by (cases p)
    with Ret assms run show ?thesis
      by (cases err) (simp_all add: mediator_Send_def Send_loop_chain)
  qed
qed

section \<open>Dispatch-time failures\<close>

text \<open>
  C3: when no handler is registered for the request type, \<^verbatim>\<open>mediator.Send\<close> returns a
  nil response with the error "no handler registered for request type" followed by the
  name of the request type, and the world state is the one it was called in, whatever
  handlers and behaviours the mediator holds: none of them ran. The generic \<open>Send\<close>, whose
  request type is the dynamic type of the request, returns the same error with the zero
  value of a non-interface response type.
\<close>

theorem Send_HandlerNotFound:
  assumes "handlers m rt = None"
  shows "mediator_Send m request (Some rt) rsptype s =
           (Ret (Nil, Some (Errorf (''no handler registered for request type '' @ Name rt))), s)
         \<and> (reflect_TypeOf request = Some rt \<and> \<not> is_interface TResponse \<longrightarrow>
              Send TResponse m request s =
                (Ret (Zero TResponse,
                   Some (Errorf (''no handler registered for request type '' @ Name rt))), s))"
  using assms by (simp add: mediator_Send_def Send_def Zero_def TypeOf_def)

theorem Send_HandlerNotFound_witness:
  "handlers (RegisterHandler string_t string_t NewMediator handler_foo) int_t = None
   \<and> mediator_Send (RegisterHandler string_t string_t NewMediator handler_foo)
       (Val int_t ''7'') (Some int_t) (Some string_t) [] =
       (Ret (Nil, Some (Errorf ''no handler registered for request type int'')), [])
   \<and> Send string_t (RegisterHandler string_t string_t NewMediator handler_foo)
       (Val int_t ''7'') [] =
       (Ret (Val string_t [], Some (Errorf ''no handler registered for request type int'')), [])"
proof -
  have none: "handlers (RegisterHandler string_t string_t NewMediator handler_foo) int_t = None"
    by (simp add: RegisterHandler_def NewMediator_def TypeOf_def string_t_def int_t_def)
  have ty: "reflect_TypeOf (Val int_t ''7'') = Some int_t \<and> \<not> is_interface string_t"
    by (simp add: string_t_def)
  from Send_HandlerNotFound [OF none, of "Val int_t ''7''" "Some string_t" "[]" string_t] ty none
  show ?thesis by (simp add: Zero_def string_t_def int_t_def)
qed

text \<open>
  Under the nil request type, which is what the generic \<open>Send\<close> computes for a nil
  request, nothing is registered either, but taking the name of the nil type for the
  error message panics.
\<close>

lemma Send_nil_request_panics:
  "mediator_Send m request None rsptype s = (Panic, s)"
  "Send TResponse m Nil s = (Panic, s)"
  by (simp_all add: mediator_Send_def Send_def)

text \<open>
  C4: when the registered handler declares a response type that is not identical to the
  expected one, \<^verbatim>\<open>mediator.Send\<close> returns a nil response with the error "wrong response
  type" that carries the names of the expected type, of the request type and of the
  declared type, and the world state is unchanged: neither the handler nor a behaviour
  ran. The comparison is equality of type descriptors, so a type that is only assignable
  to the declared one is refused as well.
\<close>

theorem Send_ResponseTypeMismatch:
  assumes "handlers m rt = Some info" and "responseType info \<noteq> rsp"
  shows "mediator_Send m request (Some rt) (Some rsp) s =
           (Ret (Nil, Some (Errorf
              (''wrong response type '' @ Name rsp @ '' was used for request '' @ Name rt @
               '', expected response type '' @ Name (responseType info)))), s)
         \<and> (reflect_TypeOf request = Some rt \<and> \<not> is_interface rsp \<longrightarrow>
              Send rsp m request s =
                (Ret (Zero rsp, Some (Errorf
                   (''wrong response type '' @ Name rsp @ '' was used for request '' @ Name rt @
                    '', expected response type '' @ Name (responseType info)))), s))"
  using assms by (simp add: mediator_Send_def Send_def Zero_def TypeOf_def)

theorem Send_ResponseTypeMismatch_witness:
  "mediator_Send (RegisterHandler string_t string_t NewMediator handler_foo)
       (Val string_t ''bar'') (Some string_t) (Some int_t) [] =
     (Ret (Nil, Some (Errorf
        ''wrong response type int was used for request string, expected response type string'')),
      [])
   \<and> Send int_t (RegisterHandler string_t string_t NewMediator handler_foo)
       (Val string_t ''bar'') [] =
     (Ret (Val int_t [], Some (Errorf
        ''wrong response type int was used for request string, expected response type string'')),
      [])"
proof -
  let ?info = "\<lparr>requestType = string_t, responseType = string_t,
     handlerFunc = (\<lambda>request s.
       if type_assert request string_t then handler_foo request s else (Panic, s))\<rparr>"
  have found: "handlers (RegisterHandler string_t string_t NewMediator handler_foo) string_t
      = Some ?info"
    by (simp add: RegisterHandler_def NewMediator_def TypeOf_def)
  have differ: "responseType ?info \<noteq> int_t"
    by (simp add: string_t_def int_t_def)
  have ty: "reflect_TypeOf (Val string_t ''bar'') = Some string_t \<and> \<not> is_interface int_t"
    by (simp add: int_t_def)
  from Send_ResponseTypeMismatch [OF found differ, of "Val string_t ''bar''" "[]"] ty
  show ?thesis by (simp add: Zero_def string_t_def int_t_def)
qed

section \<open>Registration\<close>

text \<open>
  C8: registering a second handler for a request type replaces the first. The mediator
  after both registrations is the mediator after the second registration alone, so every
  later dispatch behaves as if the first handler had never been registered; the one entry
  stored under the request type is the latest one.
\<close>

theorem RegisterHandler_last_wins:
  "RegisterHandler T R2 (RegisterHandler T R1 m h1) h2 = RegisterHandler T R2 m h2
   \<and> mediator_Send (RegisterHandler T R2 (RegisterHandler T R1 m h1) h2) =
       mediator_Send (RegisterHandler T R2 m h2)
   \<and> handlers (RegisterHandler T R2 (RegisterHandler T R1 m h1) h2) T =
       Some \<lparr>requestType = T, responseType = R2,
         handlerFunc = (\<lambda>request s.
           if type_assert request T then h2 request s else (Panic, s))\<rparr>"
  by (simp add: RegisterHandler_def TypeOf_def)

section \<open>Event fan-out\<close>

lemma RegisterEventHandler_appends:
  "eventHandlers (RegisterEventHandler T m l) T =
     Some ((case eventHandlers m T of None \<Rightarrow> [] | Some hs \<Rightarrow> hs) @
       [\<lparr>eventType = T,
         eventHandlerFunc = (\<lambda>evt s. if type_assert evt T then l evt s else (Panic, s))\<rparr>])"
  by (simp add: RegisterEventHandler_def TypeOf_def Let_def)

lemma listeners_state_append:
  "listeners_state (hs @ rest) evt s = listeners_state rest evt (listeners_state hs evt s)"
  by (induction hs arbitrary: s) simp_all

lemma SendEvent_loop_all_nil:
  "all_nil hs evt s \<Longrightarrow>
     SendEvent_loop (hs @ rest) evt s = SendEvent_loop rest evt (listeners_state hs evt s)"
proof (induction hs arbitrary: s)
  case Nil
  show ?case by simp
next
  case (Cons h hs)
  obtain r s' where run: "eventHandlerFunc h evt s = (r, s')"
    by (cases "eventHandlerFunc h evt s")
  with Cons.prems have r: "r = Ret None" and rest: "all_nil hs evt s'" by simp_all
  from Cons.IH [OF rest] run r show ?case by simp
qed

lemma SendEvent_loop_error:
  assumes "fst (eventHandlerFunc l evt s) = Ret (Some e)"
  shows "SendEvent_loop (l # post) evt s = (Ret (Some e), snd (eventHandlerFunc l evt s))"
proof -
  obtain r s' where run: "eventHandlerFunc l evt s = (r, s')"
    by (cases "eventHandlerFunc l evt s")
  with assms show ?thesis by simp
qed

text \<open>
  C5: \<^verbatim>\<open>mediator.SendEvent\<close> invokes the listeners stored under the event type one after
  the other in their stored order, which is the order of registration
  (\<open>RegisterEventHandler_appends\<close>). With no listeners under the event type it returns nil
  and leaves the state alone. When every listener returns nil it returns nil, in the
  state all of them left in turn. When the listeners before \<open>l\<close> return nil and \<open>l\<close>
  returns an error, it returns that error in the state left by those listeners and \<open>l\<close>,
  whatever the listeners after \<open>l\<close> are: they are not invoked.
\<close>

theorem SendEvent_fan_out:
  "(eventHandlers m t = None \<longrightarrow> mediator_SendEvent m evt (Some t) s = (Ret None, s))
   \<and> (eventHandlers m t = Some hs \<and> all_nil hs evt s \<longrightarrow>
        mediator_SendEvent m evt (Some t) s = (Ret None, listeners_state hs evt s))
   \<and> (eventHandlers m t = Some (pre @ l # post) \<and> all_nil pre evt s \<and>
        fst (eventHandlerFunc l evt (listeners_state pre evt s)) = Ret (Some e) \<longrightarrow>
        mediator_SendEvent m evt (Some t) s =
          (Ret (Some e), listeners_state (pre @ [l]) evt s))"
proof (intro conjI impI)
  assume "eventHandlers m t = None"
  then show "mediator_SendEvent m evt (Some t) s = (Ret None, s)"
    by (simp add: mediator_SendEvent_def)
next
  assume "eventHandlers m t = Some hs \<and> all_nil hs evt s"
  then have stored: "eventHandlers m t = Some hs" and nil: "all_nil hs evt s" by simp_all
  from SendEvent_loop_all_nil [OF nil, of "[]"] stored
  show "mediator_SendEvent m evt (Some t) s = (Ret None, listeners_state hs evt s)"
    by (simp add: mediator_SendEvent_def)
next
  assume a: "eventHandlers m t = Some (pre @ l # post) \<and> all_nil pre evt s \<and>
    fst (eventHandlerFunc l evt (listeners_state pre evt s)) = Ret (Some e)"
  then have stored: "eventHandlers m t = Some (pre @ l # post)"
    and nil: "all_nil pre evt s"
    and err: "fst (eventHandlerFunc l evt (listeners_state pre evt s)) = Ret (Some e)"
    by simp_all
  from SendEvent_loop_all_nil [OF nil, of "l # post"] SendEvent_loop_error [OF err, of post] stored
  show "mediator_SendEvent m evt (Some t) s = (Ret (Some e), listeners_state (pre @ [l]) evt s)"
    by (simp add: mediator_SendEvent_def listeners_state_append)
qed

theorem SendEvent_fan_out_witness:
  "mediator_SendEvent three_listeners (Val string_t ''evt'') (Some string_t) [] =
     (Ret (Some (AppError ''L2'')), [''L1'', ''L2''])
   \<and> mediator_SendEvent (NewMediator :: string list mediator) (Val string_t ''evt'')
       (Some string_t) [] = (Ret None, [])"
proof -
  let ?w = "\<lambda>l. \<lparr>eventType = string_t,
     eventHandlerFunc = (\<lambda>evt s. if type_assert evt string_t then l evt s else (Panic, s))\<rparr>"
  let ?evt = "Val string_t ''evt''"
  have stored: "eventHandlers three_listeners string_t =
      Some ([?w (listener_ok ''L1'')] @ ?w (listener_failing ''L2'') # [?w (listener_ok ''L3'')])"
    by (simp add: three_listeners_def RegisterEventHandler_def NewMediator_def TypeOf_def)
  have ok: "type_assert ?evt string_t"
    by (simp add: string_t_def)
  have nil: "all_nil [?w (listener_ok ''L1'')] ?evt []"
    using ok by (simp add: listener_ok_def)
  have err: "fst (eventHandlerFunc (?w (listener_failing ''L2'')) ?evt
      (listeners_state [?w (listener_ok ''L1'')] ?evt [])) = Ret (Some (AppError ''L2''))"
    using ok by (simp add: listener_failing_def)
  have st: "listeners_state ([?w (listener_ok ''L1'')] @ [?w (listener_failing ''L2'')]) ?evt []
      = [''L1'', ''L2'']"
    using ok by (simp add: listener_ok_def listener_failing_def)
  have none: "eventHandlers (NewMediator :: string list mediator) string_t = None"
    by (simp add: NewMediator_def)
  from SendEvent_fan_out [of three_listeners string_t ?evt "[]" "[]"
      "[?w (listener_ok ''L1'')]" "?w (listener_failing ''L2'')" "[?w (listener_ok ''L3'')]"
      "AppError ''L2''"] stored nil err st
  have first: "mediator_SendEvent three_listeners ?evt (Some string_t) [] =
     (Ret (Some (AppError ''L2'')), [''L1'', ''L2''])"
    by simp
  from SendEvent_fan_out [of NewMediator string_t ?evt "[]::string list" "[]"
      "[]" "?w (listener_ok ''L1'')" "[]" "AppError ''L2''"] none
  have second: "mediator_SendEvent (NewMediator :: string list mediator) ?evt (Some string_t) []
      = (Ret None, [])"
    by simp
  from first second show ?thesis by simp
qed

section \<open>Order of execution\<close>

lemma AssignableTo_refl: "AssignableTo T T"
  by (simp add: AssignableTo_def directlyAssignable_def)

lemma implements_refl: "is_interface T \<Longrightarrow> implements T T"
  by (cases T rule: is_interface.cases) simp_all

lemma type_assert_dynamic: "type_assert (Val T x) T"
  by (simp add: implements_refl)

lemma RegisterBehaviour_entry:
  "RegisterBehaviour T m b = m\<lparr>behaviours := behaviours m @ [behaviourEntry T b]\<rparr>"
  by (simp add: RegisterBehaviour_def behaviourEntry_def TypeOf_def)

lemma RegisterBehaviours_behaviours:
  "behaviours (RegisterBehaviours T m bs) =
     behaviours m @ map (\<lambda>(pre, post). behaviourEntry T (around pre post)) bs"
  by (induction bs arbitrary: m) (auto simp: RegisterBehaviour_entry)

lemma RegisterBehaviours_handlers: "handlers (RegisterBehaviours T m bs) = handlers m"
  by (induction bs arbitrary: m) (auto simp: RegisterBehaviour_entry)

text \<open>
  Handlers and behaviours live in separate registries, so it does not matter whether the
  handler is registered before or after the behaviours.
\<close>

lemma RegisterHandler_RegisterBehaviours:
  "RegisterHandler T R (RegisterBehaviours T' m bs) h =
     RegisterBehaviours T' (RegisterHandler T R m h) bs"
proof (induction bs arbitrary: m)
  case Nil
  show ?case by simp
next
  case (Cons b bs)
  obtain pre post where b: "b = (pre, post)" by (cases b)
  have "RegisterHandler T R (RegisterBehaviour T' m (around pre post)) h =
      RegisterBehaviour T' (RegisterHandler T R m h) (around pre post)"
    by (simp add: RegisterHandler_def RegisterBehaviour_def)
  with Cons.IH [of "RegisterBehaviour T' m (around pre post)"] b show ?case by simp
qed

lemma getBehaviours_RegisterBehaviours:
  "getBehaviours (RegisterBehaviours T m bs) T =
     getBehaviours m T @ map (\<lambda>(pre, post). behaviourEntry T (around pre post)) bs"
proof -
  have "filter (\<lambda>b. AssignableTo T (b_requestType b))
          (map (\<lambda>(pre, post). behaviourEntry T (around pre post)) bs) =
        map (\<lambda>(pre, post). behaviourEntry T (around pre post)) bs"
    by (induction bs) (auto simp: behaviourEntry_def AssignableTo_refl)
  then show ?thesis
    by (simp add: getBehaviours_def getBehaviours_loop_filter RegisterBehaviours_behaviours)
qed

lemma chain_around:
  assumes "type_assert request T"
    and "k (pre_logic bs request s) = (Ret r, s')"
  shows "chain (map (\<lambda>(pre, post). behaviourEntry T (around pre post)) bs) request k s =
           (Ret r, post_logic bs request s')"
  using assms(2)
proof (induction bs arbitrary: s)
  case Nil
  then show ?case by simp
next
  case (Cons b bs)
  obtain pre post where b: "b = (pre, post)" by (cases b)
  from Cons.prems b have "k (pre_logic bs request (pre request s)) = (Ret r, s')" by simp
  from Cons.IH [OF this] b assms(1) show ?case
    by (simp add: behaviourEntry_def around_def)
qed

text \<open>
  C1: let behaviours with logic before and after \<open>next\<close> be registered in some order for
  the request type \<open>T\<close>, together with a handler \<open>h\<close> for \<open>T\<close>, on a mediator none of
  whose earlier behaviours matches \<open>T\<close>. Then \<^verbatim>\<open>mediator.Send\<close> of a request of type \<open>T\<close>
  runs the logic before \<open>next\<close> of the behaviours in registration order, then the handler
  in the state that leaves, then the logic after \<open>next\<close> in reverse registration order.
  By \<open>RegisterHandler_RegisterBehaviours\<close> the same holds when the handler is registered
  after the behaviours.
\<close>

theorem Send_onion_order:
  assumes "getBehaviours m0 T = []"
    and "h (Val T x) (pre_logic bs (Val T x) s) = (Ret (v, e), s')"
  shows "mediator_Send (RegisterBehaviours T (RegisterHandler T R m0 h) bs)
           (Val T x) (Some T) (Some R) s =
         (Ret (if e = None then v else Nil, e), post_logic bs (Val T x) s')"
proof -
  let ?m = "RegisterBehaviours T (RegisterHandler T R m0 h) bs"
  let ?info = "\<lparr>requestType = T, responseType = R,
     handlerFunc = (\<lambda>request s. if type_assert request T then h request s else (Panic, s))\<rparr>"
  have found: "handlers ?m T = Some ?info"
    by (simp add: RegisterBehaviours_handlers RegisterHandler_def TypeOf_def)
  have rsp: "responseType ?info = R" by simp
  have ta: "type_assert (Val T x) T"
    by (rule type_assert_dynamic)
  have "getBehaviours (RegisterHandler T R m0 h) T = []"
    using assms(1) by (simp add: getBehaviours_def RegisterHandler_def)
  then have matching: "getBehaviours ?m T =
      map (\<lambda>(pre, post). behaviourEntry T (around pre post)) bs"
    by (simp add: getBehaviours_RegisterBehaviours)
  have hrun: "handlerFunc ?info (Val T x) (pre_logic bs (Val T x) s) = (Ret (v, e), s')"
    using ta assms(2) by simp
  have "chain (getBehaviours ?m T) (Val T x) (handlerFunc ?info (Val T x)) s =
      (Ret (v, e), post_logic bs (Val T x) s')"
    unfolding matching
    using chain_around [where request = "Val T x" and T = T and bs = bs and s = s
        and k = "handlerFunc ?info (Val T x)" and r = "(v, e)" and s' = s'] ta hrun
    by simp
  with mediator_Send_found [OF found rsp, of "Val T x" s] show ?thesis
    by (cases e) simp_all
qed

theorem Send_onion_order_witness:
  "mediator_Send two_behaviours (Val string_t ''bar'') (Some string_t) (Some string_t) [] =
     (Ret (Val string_t ''foo'', None), [''B1 pre'', ''B2 pre'', ''H'', ''B2 post'', ''B1 post''])"
proof -
  have a2: "getBehaviours (NewMediator :: string list mediator) string_t = []"
    by (simp add: getBehaviours_def NewMediator_def)
  have a3: "handler_foo (Val string_t ''bar'')
      (pre_logic [(log_stage ''B1 pre'', log_stage ''B1 post''),
                  (log_stage ''B2 pre'', log_stage ''B2 post'')] (Val string_t ''bar'') []) =
      (Ret (Val string_t ''foo'', None), [''B1 pre'', ''B2 pre'', ''H''])"
    by (simp add: handler_foo_def log_stage_def)
  from Send_onion_order [where T = string_t and R = string_t and ?m0.0 = NewMediator
      and h = handler_foo and x = "''bar''" and s = "[]"
      and bs = "[(log_stage ''B1 pre'', log_stage ''B1 post''),
                 (log_stage ''B2 pre'', log_stage ''B2 post'')]"
      and v = "Val string_t ''foo''" and e = None and s' = "[''B1 pre'', ''B2 pre'', ''H'']"]
    a2 a3
  show ?thesis
    by (simp add: two_behaviours_def log_stage_def)
qed

section \<open>What Send returns\<close>

lemma finish_Ret: "finish (Ret (v, e), s) = (Ret (if e = None then v else Nil, e), s)"
  by (cases e) simp_all

lemma getBehaviours_RegisterHandler:
  "getBehaviours (RegisterHandler T R m h) rt = getBehaviours m rt"
  by (simp add: getBehaviours_def RegisterHandler_def)

lemma handlers_RegisterHandler:
  "handlers (RegisterHandler T R m h) T =
     Some \<lparr>requestType = T, responseType = R,
       handlerFunc = (\<lambda>request s. if type_assert request T then h request s else (Panic, s))\<rparr>"
  by (simp add: RegisterHandler_def TypeOf_def)

lemma type_assert_Zero: "\<not> is_interface T \<Longrightarrow> type_assert (Zero T) T"
  by (simp add: Zero_def)

text \<open>
  What the generic \<open>Send\<close> makes of a result of \<^verbatim>\<open>mediator.Send\<close>: a response that is a
  \<open>TResponse\<close> is handed on, and a nil response becomes the zero value of a non-interface
  response type.
\<close>

lemma Send_hands_on:
  assumes "mediator_Send m request (reflect_TypeOf request) (Some T) s = (Ret (v, e), s')"
    and "type_assert v T"
  shows "Send T m request s = (Ret (v, e), s')"
proof -
  from assms(2) have "v \<noteq> Nil" by (cases v) simp_all
  with assms show ?thesis by (simp add: Send_def TypeOf_def)
qed

lemma Send_zero:
  assumes "mediator_Send m request (reflect_TypeOf request) (Some T) s = (Ret (Nil, e), s')"
    and "\<not> is_interface T"
  shows "Send T m request s = (Ret (Zero T, e), s')"
  using assms type_assert_Zero [OF assms(2)] by (simp add: Send_def TypeOf_def)

lemma has_static_type_assert: "has_static_type T v \<Longrightarrow> v \<noteq> Nil \<Longrightarrow> type_assert v T"
  by (cases v) simp_all

text \<open>
  C2, as amended: let a handler \<open>h\<close> be registered for the request type \<open>TRequest\<close> with
  response type \<open>TResponse\<close>, on a mediator none of whose behaviours matches \<open>TRequest\<close>,
  and let \<open>h\<close> return the response \<open>v\<close> and the error \<open>e\<close> for a request of that type.
  Then \<^verbatim>\<open>mediator.Send\<close> with \<open>TResponse\<close> as the expected type returns \<open>v\<close> and a nil
  error when \<open>e\<close> is nil, and a nil response and \<open>e\<close> otherwise, in the state the handler
  left. The generic \<open>Send\<close> returns \<open>v\<close> and a nil error when \<open>e\<close> is nil and \<open>v\<close> is
  not nil, whatever the response type, interface types included; when \<open>e\<close> is not nil
  and \<open>TResponse\<close> is not an interface type it returns the zero value of \<open>TResponse\<close>
  and \<open>e\<close>. Nothing is stated about the generic \<open>Send\<close> when \<open>TResponse\<close> is an
  interface type and the response that reaches it is nil.
\<close>

theorem Send_returns_handler_result:
  assumes "getBehaviours m0 TRequest = []"
    and "h (Val TRequest x) s = (Ret (v, e), s')"
  shows "mediator_Send (RegisterHandler TRequest TResponse m0 h)
           (Val TRequest x) (Some TRequest) (Some TResponse) s =
           (Ret (if e = None then v else Nil, e), s')
         \<and> (e = None \<and> v \<noteq> Nil \<and> has_static_type TResponse v \<longrightarrow>
              Send TResponse (RegisterHandler TRequest TResponse m0 h) (Val TRequest x) s =
                (Ret (v, None), s'))
         \<and> (e \<noteq> None \<and> \<not> is_interface TResponse \<longrightarrow>
              Send TResponse (RegisterHandler TRequest TResponse m0 h) (Val TRequest x) s =
                (Ret (Zero TResponse, e), s'))"
proof -
  let ?m = "RegisterHandler TRequest TResponse m0 h"
  let ?req = "Val TRequest x"
  let ?info = "\<lparr>requestType = TRequest, responseType = TResponse,
     handlerFunc = (\<lambda>request s.
       if type_assert request TRequest then h request s else (Panic, s))\<rparr>"
  have found: "handlers ?m TRequest = Some ?info"
    by (rule handlers_RegisterHandler)
  have rsp: "responseType ?info = TResponse" by simp
  have none: "getBehaviours ?m TRequest = []"
    using assms(1) by (simp add: getBehaviours_RegisterHandler)
  have direct: "mediator_Send ?m ?req (Some TRequest) (Some TResponse) s =
      (Ret (if e = None then v else Nil, e), s')"
  proof -
    have ta: "type_assert ?req TRequest" by (rule type_assert_dynamic)
    have "handlerFunc ?info ?req s = (Ret (v, e), s')"
      using ta assms(2) by simp
    with mediator_Send_found [OF found rsp, of ?req s] none show ?thesis
      by (simp only: chain.simps finish_Ret)
  qed
  have handed: "Send TResponse ?m ?req s = (Ret (v, None), s')"
    if "e = None" and "v \<noteq> Nil" and typed: "has_static_type TResponse v"
  proof -
    from direct \<open>e = None\<close>
    have "mediator_Send ?m ?req (reflect_TypeOf ?req) (Some TResponse) s = (Ret (v, None), s')"
      by simp
    then show ?thesis
      by (rule Send_hands_on) (rule has_static_type_assert [OF typed \<open>v \<noteq> Nil\<close>])
  qed
  have zero: "Send TResponse ?m ?req s = (Ret (Zero TResponse, e), s')"
    if "e \<noteq> None" and concrete: "\<not> is_interface TResponse"
  proof -
    from direct \<open>e \<noteq> None\<close>
    have "mediator_Send ?m ?req (reflect_TypeOf ?req) (Some TResponse) s = (Ret (Nil, e), s')"
      by simp
    then show ?thesis using concrete by (rule Send_zero)
  qed
  from direct handed zero show ?thesis by simp
qed

theorem Send_returns_handler_result_witness:
  "Send string_t (RegisterHandler string_t string_t NewMediator handler_foo)
     (Val string_t ''bar'') [] = (Ret (Val string_t ''foo'', None), [''H''])
   \<and> Send any_t (RegisterHandler string_t any_t NewMediator handler_foo)
       (Val string_t ''bar'') [] = (Ret (Val string_t ''foo'', None), [''H''])
   \<and> Send string_t partial_mediator (Val string_t ''bar'') [] =
       (Ret (Val string_t [], Some (AppError ''boom'')), [''H''])"
proof -
  have nb: "getBehaviours (NewMediator :: string list mediator) string_t = []"
    by (simp add: getBehaviours_def NewMediator_def)
  have foo: "handler_foo (Val string_t ''bar'') [] = (Ret (Val string_t ''foo'', None), [''H''])"
    by (simp add: handler_foo_def)
  have partial: "handler_partial (Val string_t ''bar'') [] =
      (Ret (Val string_t ''partial'', Some (AppError ''boom'')), [''H''])"
    by (simp add: handler_partial_def)
  have st: "\<not> is_interface string_t" by (simp add: string_t_def)
  have t1: "has_static_type string_t (Val string_t ''foo'')" using st by simp
  have t2: "has_static_type any_t (Val string_t ''foo'')" by (simp add: any_t_def)
  from Send_returns_handler_result [where ?m0.0 = NewMediator and TRequest = string_t
      and TResponse = string_t and h = handler_foo and x = "''bar''" and s = "[]"
      and v = "Val string_t ''foo''" and e = None and s' = "[''H'']"] nb foo t1
  have first: "Send string_t (RegisterHandler string_t string_t NewMediator handler_foo)
     (Val string_t ''bar'') [] = (Ret (Val string_t ''foo'', None), [''H''])"
    by simp
  from Send_returns_handler_result [where ?m0.0 = NewMediator and TRequest = string_t
      and TResponse = any_t and h = handler_foo and x = "''bar''" and s = "[]"
      and v = "Val string_t ''foo''" and e = None and s' = "[''H'']"] nb foo t2
  have second: "Send any_t (RegisterHandler string_t any_t NewMediator handler_foo)
     (Val string_t ''bar'') [] = (Ret (Val string_t ''foo'', None), [''H''])"
    by simp
  from Send_returns_handler_result [where ?m0.0 = NewMediator and TRequest = string_t
      and TResponse = string_t and h = handler_partial and x = "''bar''" and s = "[]"
      and v = "Val string_t ''partial''" and e = "Some (AppError ''boom'')" and s' = "[''H'']"]
    nb partial st
  have third: "Send string_t partial_mediator (Val string_t ''bar'') [] =
       (Ret (Val string_t [], Some (AppError ''boom'')), [''H''])"
    by (simp add: partial_mediator_def Zero_def)
  from first second third show ?thesis by simp
qed

text \<open>
  The claim as stated fails: the handler of \<open>partial_mediator\<close> returns the response
  "partial" together with an error, no behaviour is registered, and \<open>Send\<close> returns the
  zero value (and \<^verbatim>\<open>mediator.Send\<close> nil) in place of "partial".
\<close>

theorem Send_returns_handler_result_counterexample:
  "getBehaviours partial_mediator string_t = []
   \<and> handler_partial (Val string_t ''bar'') [] =
       (Ret (Val string_t ''partial'', Some (AppError ''boom'')), [''H''])
   \<and> Send string_t partial_mediator (Val string_t ''bar'') [] =
       (Ret (Val string_t [], Some (AppError ''boom'')), [''H''])
   \<and> mediator_Send partial_mediator (Val string_t ''bar'') (Some string_t) (Some string_t) [] =
       (Ret (Nil, Some (AppError ''boom'')), [''H''])
   \<and> Send string_t partial_mediator (Val string_t ''bar'') [] \<noteq>
       handler_partial (Val string_t ''bar'') []"
  by (simp add: partial_mediator_def getBehaviours_def RegisterHandler_def NewMediator_def
      TypeOf_def Send_def mediator_Send_def handler_partial_def Zero_def string_t_def)

section \<open>Short-circuiting behaviours\<close>



lemma b_requestType_behaviourEntry: "b_requestType (behaviourEntry T b) = T"
  by (simp add: behaviourEntry_def)




section \<open>The zero value of the response type\<close>

text \<open>
  For a non-interface response type the generic \<open>Send\<close> returns either a nil error or
  the zero value of the response type; a response that the pipeline produced with an
  error, and a nil response, are replaced by the zero value.
\<close>

lemma Send_atomic_concrete:
  assumes "\<not> is_interface T" and "Send T m request s = (Ret (v, e), s')"
  shows "e = None \<or> v = Zero T"
proof -
  obtain r s1 where run: "mediator_Send m request (reflect_TypeOf request) (Some T) s = (r, s1)"
    by (cases "mediator_Send m request (reflect_TypeOf request) (Some T) s")
  show ?thesis
  proof (cases r)
    case Panic
    with run assms(2) show ?thesis by (simp add: Send_def TypeOf_def)
  next
    case (Ret p)
    obtain response err where p: "p = (response, err)" by (cases p)
    have nil_on_error: "err \<noteq> None \<longrightarrow> response = Nil"
      using run Ret p
      by (auto simp: mediator_Send_def Let_def
          split: option.splits if_splits prod.splits outcome.splits)
    from run Ret p assms(2) nil_on_error show ?thesis
      by (auto simp: Send_def TypeOf_def Let_def split: if_splits)
  qed
qed

lemma Send_interface_nil_panics:
  assumes "is_interface T"
    and "mediator_Send m request (reflect_TypeOf request) (Some T) s = (Ret (Nil, e), s')"
  shows "Send T m request s = (Panic, s')"
  using assms by (simp add: Send_def TypeOf_def Zero_def)

text \<open>
  C6: the code at the failing input. A handler with the interface response type
  \<^verbatim>\<open>any\<close> returns an error; \<^verbatim>\<open>mediator.Send\<close> returns a nil response with that error,
  the zero value of \<^verbatim>\<open>any\<close> that replaces it is nil again, the assertion of nil to
  \<^verbatim>\<open>any\<close> fails, and \<open>Send\<close> panics where the claim has it return the zero value and
  the error.
\<close>

theorem Send_interface_response_panics:
  "mediator_Send any_mediator (Val string_t ''bar'') (Some string_t) (Some any_t) [] =
     (Ret (Nil, Some (AppError ''boom'')), [''H''])
   \<and> Zero any_t = Nil
   \<and> Send any_t any_mediator (Val string_t ''bar'') [] = (Panic, [''H''])"
  by (simp add: any_mediator_def RegisterHandler_def NewMediator_def TypeOf_def Send_def
      mediator_Send_def getBehaviours_def handler_failing_def Zero_def any_t_def string_t_def)

section \<open>The assertions of the stored wrappers\<close>

text \<open>
  A value passes the assertion to its own dynamic type (\<open>type_assert_dynamic\<close>), which is
  the handler's case: the generic \<open>Send\<close> looks the handler up under the dynamic type of
  the request. A value that passes the assertion to \<open>T\<close> has a dynamic type assignable
  to \<open>T\<close>. The converse, on which the behaviour wrappers rely, holds when \<open>T\<close> is an
  interface type or both types are named.
\<close>

lemma type_assert_AssignableTo: "type_assert (Val D x) T \<Longrightarrow> AssignableTo D T"
  by (auto simp: AssignableTo_def directlyAssignable_def split: if_splits)

lemma AssignableTo_type_assert:
  assumes "AssignableTo D T" and "is_interface T \<or> (Name D \<noteq> [] \<and> Name T \<noteq> [])"
  shows "type_assert (Val D x) T"
proof (cases "is_interface T")
  case True
  then obtain n ms d where T: "T = GoType n (Interface ms) d"
    by (cases T rule: is_interface.cases) simp_all
  show ?thesis
  proof (cases "implements T D")
    case True
    with \<open>is_interface T\<close> show ?thesis by simp
  next
    case False
    with assms(1) have da: "directlyAssignable T D" by (simp add: AssignableTo_def)
    show ?thesis
    proof (cases "T = D")
      case True
      with type_assert_dynamic [of D x] show ?thesis by simp
    next
      case False
      with da T have "haveIdenticalUnderlyingType (Interface ms) (underlying D)"
        by (simp add: directlyAssignable_def split: if_splits)
      then have "ms = []" by (cases "underlying D") simp_all
      with T show ?thesis by simp
    qed
  qed
next
  case False
  then obtain n l d where T: "T = GoType n (Literal l) d"
    by (cases T rule: is_interface.cases) simp_all
  from False assms(2) have named: "Name D \<noteq> []" "Name T \<noteq> []" by simp_all
  from T have "\<not> implements T D" by simp
  with assms(1) have "directlyAssignable T D" by (simp add: AssignableTo_def)
  with named have "T = D" by (simp add: directlyAssignable_def split: if_splits)
  with False show ?thesis by simp
qed

text \<open>
  C10: the code at two failing inputs. A request of type \<^verbatim>\<open>[]int\<close> is assignable to the
  defined type \<^verbatim>\<open>IDs\<close> with that underlying type, so the behaviour registered for
  \<^verbatim>\<open>IDs\<close> matches; its wrapper asserts the request to \<^verbatim>\<open>IDs\<close>, which is not the
  dynamic type of the request, and \<open>Send\<close> panics before anything else runs. A nil event
  of the interface type \<^verbatim>\<open>error\<close> is looked up under \<^verbatim>\<open>error\<close>, where a listener is
  registered; its wrapper asserts the nil event to \<^verbatim>\<open>error\<close>, and \<open>SendEvent\<close> panics.
\<close>

theorem wrapper_assertion_panics:
  "reflect_TypeOf (Val slice_t ''[1]'') = Some slice_t
   \<and> AssignableTo slice_t ids_t
   \<and> \<not> type_assert (Val slice_t ''[1]'') ids_t
   \<and> Send string_t ids_mediator (Val slice_t ''[1]'') [] = (Panic, [])
   \<and> has_static_type error_t Nil
   \<and> \<not> type_assert Nil error_t
   \<and> SendEvent error_t error_mediator Nil [] = (Panic, [])"
  by (simp add: ids_mediator_def error_mediator_def RegisterBehaviour_def
      RegisterHandler_def RegisterEventHandler_def NewMediator_def TypeOf_def Send_def
      mediator_Send_def SendEvent_def mediator_SendEvent_def getBehaviours_def Let_def
      AssignableTo_def directlyAssignable_def slice_t_def ids_t_def error_t_def string_t_def)

section \<open>Further examples\<close>

text \<open>
  Of three behaviours registered for \<^verbatim>\<open>any\<close>, \<^verbatim>\<open>int\<close> and \<^verbatim>\<open>string\<close>, a request of
  type \<^verbatim>\<open>string\<close> matches the first and the third, in that order.
\<close>

theorem getBehaviours_matching_witness:
  "getBehaviours mixed_mediator string_t =
     [behaviourEntry any_t behaviour_pass, behaviourEntry string_t behaviour_reject]"
proof -
  have a: "AssignableTo string_t any_t" "\<not> AssignableTo string_t int_t"
    by (simp_all add: AssignableTo_def directlyAssignable_def string_t_def any_t_def int_t_def)
  from getBehaviours_matching [of mixed_mediator string_t] a show ?thesis
    by (simp add: mixed_mediator_def RegisterBehaviour_entry NewMediator_def
        b_requestType_behaviourEntry AssignableTo_refl)
qed

text \<open>After two registrations for \<^verbatim>\<open>string\<close> only the second handler runs.\<close>

theorem RegisterHandler_last_wins_witness:
  "Send string_t
     (RegisterHandler string_t string_t
        (RegisterHandler string_t string_t NewMediator handler_foo) handler_bar)
     (Val string_t ''x'') [] = (Ret (Val string_t ''bar'', None), [''H2''])"
proof -
  have "Send string_t (RegisterHandler string_t string_t NewMediator handler_bar)
     (Val string_t ''x'') [] = (Ret (Val string_t ''bar'', None), [''H2''])"
    by (simp add: RegisterHandler_def NewMediator_def TypeOf_def Send_def mediator_Send_def
        getBehaviours_def handler_bar_def string_t_def)
  with RegisterHandler_last_wins [of string_t string_t string_t NewMediator handler_foo handler_bar]
  show ?thesis by simp
qed

end
